theory Spec2Isabelle
  imports Main "HOL-Library.AList"
begin

section \<open>The webhook relay of server.go\<close>

text \<open>
  The program is one Go file, \<^verbatim>\<open>server.go\<close>: a router with two routes, the liveness
  handler \<^verbatim>\<open>Root\<close> and the ingestion handler \<^verbatim>\<open>Slack\<close>, and one process-wide cache of
  the request ids already relayed. Handlers are modelled as functions from the request,
  the clock readings and the process state to the response and the new state. Logging
  (\<^verbatim>\<open>log.Printf\<close>) has no effect on responses or state and is left out.
\<close>

subsection \<open>Constants\<close>

text \<open>\<^verbatim>\<open>var What = "dnsimple-strillone"\<close>\<close>

definition What :: string where
  "What = ''dnsimple-strillone''"

text \<open>\<^verbatim>\<open>const cacheTTL = 300\<close> and \<^verbatim>\<open>headerProcessingStatus = "X-Processing-Status"\<close>\<close>

definition cacheTTL :: int where
  "cacheTTL = 300"

definition headerProcessingStatus :: string where
  "headerProcessingStatus = ''X-Processing-Status''"

text \<open>
  Time is an integer count of nanoseconds since the Unix epoch, the resolution of Go's
  \<^verbatim>\<open>time\<close> package: \<^verbatim>\<open>time.Second\<close> is the duration \<open>10\<^sup>9\<close>, and \<^verbatim>\<open>Time.Unix()\<close> is the
  number of whole seconds since the epoch.
\<close>

definition Second :: int where
  "Second = 1000000000"

definition Unix :: "int \<Rightarrow> int" where
  "Unix now = now div Second"

text \<open>The status codes of \<^verbatim>\<open>net/http\<close> that the handlers use.\<close>

definition StatusOK :: nat where
  "StatusOK = 200"

definition StatusBadRequest :: nat where
  "StatusBadRequest = 400"

definition StatusNotFound :: nat where
  "StatusNotFound = 404"

definition StatusMethodNotAllowed :: nat where
  "StatusMethodNotAllowed = 405"

definition StatusInternalServerError :: nat where
  "StatusInternalServerError = 500"

subsection \<open>The response writer\<close>

text \<open>
  \<^verbatim>\<open>http.ResponseWriter\<close>: the status is \<open>None\<close> until the header is written; the first
  write of body bytes writes the header with status 200; a second \<^verbatim>\<open>WriteHeader\<close> and a
  header set after the header was written do not change what is sent.
\<close>

record ResponseWriter =
  code :: "nat option"
  header :: "(string \<times> string) list"
  written :: string

definition newResponse :: ResponseWriter where
  "newResponse = \<lparr>code = None, header = [], written = []\<rparr>"

text \<open>
  \<^verbatim>\<open>Header.Set\<close> stores the value under the canonical form of the key
  (\<^verbatim>\<open>textproto.CanonicalMIMEHeaderKey\<close>): a key of token characters only gets its first
  letter and every letter after a hyphen in upper case and the other letters in lower
  case; any other key is left as it is.
\<close>

definition validHeaderFieldByte :: "char \<Rightarrow> bool" where
  "validHeaderFieldByte c \<longleftrightarrow>
     c \<in> set (''!#$%&*+-.^_|~0123456789abcdefghijklmnopqrstuvwxyzABCDEFGHIJKLMNOPQRSTUVWXYZ''
              @ [CHR 0x27, CHR 0x60])"

definition toUpper :: "char \<Rightarrow> char" where
  "toUpper c =
     (case map_of (zip ''abcdefghijklmnopqrstuvwxyz'' ''ABCDEFGHIJKLMNOPQRSTUVWXYZ'') c of
        None \<Rightarrow> c
      | Some u \<Rightarrow> u)"

definition toLower :: "char \<Rightarrow> char" where
  "toLower c =
     (case map_of (zip ''ABCDEFGHIJKLMNOPQRSTUVWXYZ'' ''abcdefghijklmnopqrstuvwxyz'') c of
        None \<Rightarrow> c
      | Some l \<Rightarrow> l)"

fun canonicalMIMEHeaderKey :: "bool \<Rightarrow> string \<Rightarrow> string" where
  "canonicalMIMEHeaderKey upper [] = []"
| "canonicalMIMEHeaderKey upper (c # cs) =
     (if upper then toUpper c # canonicalMIMEHeaderKey (toUpper c = CHR ''-'') cs
      else toLower c # canonicalMIMEHeaderKey (toLower c = CHR ''-'') cs)"

definition CanonicalMIMEHeaderKey :: "string \<Rightarrow> string" where
  "CanonicalMIMEHeaderKey k =
     (if list_all validHeaderFieldByte k then canonicalMIMEHeaderKey True k else k)"

definition Header_Set :: "string \<Rightarrow> string \<Rightarrow> ResponseWriter \<Rightarrow> ResponseWriter" where
  "Header_Set k v w =
     (if code w = None
      then w\<lparr>header := AList.update (CanonicalMIMEHeaderKey k) v (header w)\<rparr>
      else w)"

definition WriteHeader :: "nat \<Rightarrow> ResponseWriter \<Rightarrow> ResponseWriter" where
  "WriteHeader c w = (if code w = None then w\<lparr>code := Some c\<rparr> else w)"

text \<open>\<^verbatim>\<open>fmt.Fprintln(w, s)\<close> writes \<open>s\<close> and a newline.\<close>

definition Fprintln :: "ResponseWriter \<Rightarrow> string \<Rightarrow> ResponseWriter" where
  "Fprintln w s = (WriteHeader StatusOK w)\<lparr>written := written w @ s @ [CHR 0x0A]\<rparr>"

text \<open>
  \<^verbatim>\<open>http.Error(w, msg, code)\<close> sets the plain-text content type, writes the header with
  \<open>code\<close> and prints the message on a line.
\<close>

definition http_Error :: "ResponseWriter \<Rightarrow> string \<Rightarrow> nat \<Rightarrow> ResponseWriter" where
  "http_Error w msg c =
     Fprintln
       (WriteHeader c
         (Header_Set ''X-Content-Type-Options'' ''nosniff''
           (Header_Set ''Content-Type'' ''text/plain; charset=utf-8'' w)))
       msg"

subsection \<open>Requests and routing parameters\<close>

text \<open>
  The request as the handler reads it: the method, and what \<^verbatim>\<open>ioutil.ReadAll(r.Body)\<close>
  returns, the error text (\<open>Inl\<close>) or the bytes of the body (\<open>Inr\<close>).
\<close>

record Request =
  Method :: string
  Body :: "string + string"

text \<open>
  \<^verbatim>\<open>httprouter.Params\<close> is a slice of key-value pairs; \<^verbatim>\<open>ByName\<close> returns the value of
  the first pair with the key, and the empty string when there is none.
\<close>

type_synonym Params = "(string \<times> string) list"

definition ByName :: "Params \<Rightarrow> string \<Rightarrow> string" where
  "ByName ps name = (case map_of ps name of None \<Rightarrow> [] | Some v \<Rightarrow> v)"

subsection \<open>The event and the cache\<close>

text \<open>
  Modelled from the spec: the Event Envelope, the type \<^verbatim>\<open>webhook.ParseEvent\<close> returns
  (package \<^verbatim>\<open>dnsimple/webhook\<close>, not among the sources). The spec gives it a request id,
  the identity key, a name and payload fields; the handler reads \<^verbatim>\<open>RequestID\<close> only.
\<close>

record Event =
  RequestID :: string
  Name :: string
  Payload :: string

text \<open>
  Modelled from the spec: the Dedup Cache, \<^verbatim>\<open>ttlcache.Cache\<close> (package
  \<^verbatim>\<open>wunderlist/ttlcache\<close>, not among the sources). Section 4.1 of the spec: \<^verbatim>\<open>Set\<close>
  records the key with a fresh expiry one time-to-live after the insertion, overwriting
  any prior entry; \<^verbatim>\<open>Get\<close> is a lookup that reports presence, and reports absence once
  the expiry has passed, whether or not a sweep has removed the entry. Both read the
  clock, which is their \<open>now\<close> argument.
\<close>

record Cache =
  ttl :: int
  items :: "string \<rightharpoonup> (string \<times> int)"

definition NewCache :: "int \<Rightarrow> Cache" where
  "NewCache d = \<lparr>ttl = d, items = Map.empty\<rparr>"

definition Cache_Get :: "Cache \<Rightarrow> int \<Rightarrow> string \<Rightarrow> string \<times> bool" where
  "Cache_Get c now key =
     (case items c key of
        None \<Rightarrow> ([], False)
      | Some (data, expires) \<Rightarrow> if now < expires then (data, True) else ([], False))"

definition Cache_Set :: "Cache \<Rightarrow> int \<Rightarrow> string \<Rightarrow> string \<Rightarrow> Cache" where
  "Cache_Set c now key data = c\<lparr>items := (items c)(key \<mapsto> (data, now + ttl c))\<rparr>"

subsection \<open>The process state\<close>

text \<open>
  The package variable \<^verbatim>\<open>processedEvents\<close>, and the trace of the calls of
  \<^verbatim>\<open>SlackService.PostEvent\<close> made so far, each with the token of the service and the
  event: the trace is how a theorem says that the relay was or was not invoked.
\<close>

record World =
  processedEvents :: Cache
  posted :: "(string \<times> Event) list"

text \<open>\<^verbatim>\<open>init\<close>: \<^verbatim>\<open>processedEvents = ttlcache.NewCache(time.Second * cacheTTL)\<close>\<close>

definition init :: World where
  "init = \<lparr>processedEvents = NewCache (Second * cacheTTL), posted = []\<rparr>"

subsection \<open>The handlers\<close>

text \<open>
  \<^verbatim>\<open>fmt.Sprintf("%v", n)\<close> of an \<^verbatim>\<open>int64\<close>: the decimal digits, after a minus sign when
  negative.
\<close>

fun digits :: "nat \<Rightarrow> string" where
  "digits n =
     (if n < 10 then [''0123456789'' ! n]
      else digits (n div 10) @ [''0123456789'' ! (n mod 10)])"

declare digits.simps [simp del]

definition Sprint_int :: "int \<Rightarrow> string" where
  "Sprint_int i = (if i < 0 then ''-'' @ digits (nat (- i)) else digits (nat i))"

text \<open>
  \<^verbatim>\<open>Root\<close>: sets the content type and prints
  \<^verbatim>\<open>fmt.Sprintf(`{"ping":"%v","what":"%s"}`, time.Now().Unix(), What)\<close>.
  The quotation mark is \<open>CHR 0x22\<close>.
\<close>

definition Root :: "int \<Rightarrow> ResponseWriter \<Rightarrow> ResponseWriter" where
  "Root now w =
     Fprintln (Header_Set ''Content-type'' ''application/json'' w)
       (''{'' @ [CHR 0x22] @ ''ping'' @ [CHR 0x22] @ '':'' @ [CHR 0x22]
          @ Sprint_int (Unix now)
          @ [CHR 0x22] @ '','' @ [CHR 0x22] @ ''what'' @ [CHR 0x22] @ '':'' @ [CHR 0x22]
          @ What @ [CHR 0x22] @ ''}'')"

text \<open>
  The token of the Slack service, lines 114 and 115:
  \<^verbatim>\<open>fmt.Sprintf("%s/%s/%s", slackAlpha, slackBeta, slackGamma)\<close> of the three named
  parameters.
\<close>

definition slackToken :: "Params \<Rightarrow> string" where
  "slackToken params =
     ByName params ''slackAlpha'' @ ''/'' @ ByName params ''slackBeta'' @ ''/''
       @ ByName params ''slackGamma''"

text \<open>
  \<^verbatim>\<open>Slack\<close>. The webhook parser and the outbound client are not among the sources and are
  parameters: \<open>ParseEvent\<close> maps the body to the error text or the event, and
  \<open>PostEvent\<close> maps the token of the service and the event to the error text or the
  confirmation text. \<open>tGet\<close> and \<open>tSet\<close> are the clock readings at the cache lookup and at
  the cache insertion, which the call of the client separates.
\<close>

definition Slack ::
  "(string \<Rightarrow> string + Event) \<Rightarrow> (string \<Rightarrow> Event \<Rightarrow> string + string) \<Rightarrow> int \<Rightarrow> int
     \<Rightarrow> Request \<Rightarrow> Params \<Rightarrow> ResponseWriter \<Rightarrow> World \<Rightarrow> ResponseWriter \<times> World" where
  "Slack ParseEvent PostEvent tGet tSet r params w s =
     (if Method r \<noteq> ''POST'' then (WriteHeader StatusMethodNotAllowed w, s)
      else case Body r of
        Inl err \<Rightarrow> (http_Error w err StatusBadRequest, s)
      | Inr data \<Rightarrow>
         (case ParseEvent data of
            Inl err \<Rightarrow> (http_Error w err StatusBadRequest, s)
          | Inr event \<Rightarrow>
             if snd (Cache_Get (processedEvents s) tGet (RequestID event))
             then (WriteHeader StatusOK
                     (Header_Set headerProcessingStatus ''skipped;already-processed'' w), s)
             else
               (case PostEvent (slackToken params) event of
                  Inl err \<Rightarrow>
                    (http_Error w err StatusInternalServerError,
                     s\<lparr>posted := posted s @ [(slackToken params, event)]\<rparr>)
                | Inr text \<Rightarrow>
                    (Fprintln w text,
                     s\<lparr>posted := posted s @ [(slackToken params, event)],
                       processedEvents :=
                         Cache_Set (processedEvents s) tSet (RequestID event)
                           (RequestID event)\<rparr>))))"











subsection \<open>Example inputs\<close>

text \<open>
  Concrete collaborators and requests at which the theorems below are instantiated:
  a parser that accepts every body and takes it as the request id, a parser that rejects
  every body, a client that delivers and one that fails, a post of the body
  \<^verbatim>\<open>abc123\<close>, two routes, and the state after that post was relayed at time 6.
\<close>

definition parse_ok :: "string \<Rightarrow> string + Event" where
  "parse_ok data = Inr \<lparr>RequestID = data, Name = ''domain.renew'', Payload = []\<rparr>"

definition parse_fail :: "string \<Rightarrow> string + Event" where
  "parse_fail data = Inl ''unexpected end of JSON input''"

definition post_ok :: "string \<Rightarrow> Event \<Rightarrow> string + string" where
  "post_ok token event = Inr ''ok''"

definition post_fail :: "string \<Rightarrow> Event \<Rightarrow> string + string" where
  "post_fail token event = Inl ''invalid_token''"

definition abc123 :: Event where
  "abc123 = \<lparr>RequestID = ''abc123'', Name = ''domain.renew'', Payload = []\<rparr>"

definition post_abc123 :: Request where
  "post_abc123 = \<lparr>Method = ''POST'', Body = Inr ''abc123''\<rparr>"

definition get_abc123 :: Request where
  "get_abc123 = \<lparr>Method = ''GET'', Body = Inr ''abc123''\<rparr>"

definition route_T :: Params where
  "route_T = [(''slackAlpha'', ''T1''), (''slackBeta'', ''T2''), (''slackGamma'', ''T3'')]"

definition route_U :: Params where
  "route_U = [(''slackAlpha'', ''U1''), (''slackBeta'', ''U2''), (''slackGamma'', ''U3'')]"

definition seen :: World where
  "seen =
     \<lparr>processedEvents = Cache_Set (NewCache (Second * cacheTTL)) 6 ''abc123'' ''abc123'',
      posted = [(''T1/T2/T3'', abc123)]\<rparr>"

definition tried :: World where
  "tried =
     \<lparr>processedEvents = NewCache (Second * cacheTTL), posted = [(''T1/T2/T3'', abc123)]\<rparr>"

section \<open>Properties\<close>

text \<open>The header names the program sets, in their canonical form.\<close>

lemma canonical_keys:
  "CanonicalMIMEHeaderKey ''Content-type'' = ''Content-Type''"
  "CanonicalMIMEHeaderKey ''Content-Type'' = ''Content-Type''"
  "CanonicalMIMEHeaderKey ''X-Content-Type-Options'' = ''X-Content-Type-Options''"
  "CanonicalMIMEHeaderKey ''X-Processing-Status'' = ''X-Processing-Status''"
  "CanonicalMIMEHeaderKey ''Allow'' = ''Allow''"
  by (simp_all add: CanonicalMIMEHeaderKey_def validHeaderFieldByte_def toUpper_def
      toLower_def)

lemmas writer_defs = WriteHeader_def Header_Set_def newResponse_def Fprintln_def
  http_Error_def StatusOK_def StatusBadRequest_def StatusNotFound_def
  StatusMethodNotAllowed_def StatusInternalServerError_def headerProcessingStatus_def
  canonical_keys

lemmas example_defs = parse_ok_def parse_fail_def post_ok_def post_fail_def abc123_def
  post_abc123_def get_abc123_def route_T_def route_U_def seen_def tried_def init_def
  NewCache_def Cache_Get_def Cache_Set_def slackToken_def ByName_def Second_def
  cacheTTL_def

subsection \<open>The cache\<close>

text \<open>A key just set is present exactly until its time-to-live has passed.\<close>

lemma Cache_Get_Set_same:
  "snd (Cache_Get (Cache_Set c tSet key data) now key) \<longleftrightarrow> now < tSet + ttl c"
  by (simp add: Cache_Get_def Cache_Set_def)

text \<open>A key that is absent stays absent as the clock advances, until it is set.\<close>

lemma Cache_Get_absent_later:
  "\<not> snd (Cache_Get c t key) \<Longrightarrow> t \<le> t' \<Longrightarrow> \<not> snd (Cache_Get c t' key)"
  by (auto simp: Cache_Get_def split: option.splits if_splits)

text \<open>The handler never changes the time-to-live that \<^verbatim>\<open>init\<close> gave the cache.\<close>

lemma Slack_ttl:
  "ttl (processedEvents (snd (Slack ParseEvent PostEvent tGet tSet r params w s))) =
     ttl (processedEvents s)"
  by (simp add: Slack_def Cache_Set_def split: sum.splits)

lemma init_ttl: "ttl (processedEvents init) = Second * cacheTTL"
  by (simp add: init_def NewCache_def)

subsection \<open>Admission\<close>

text \<open>
  C1: a post that the parser accepts, whose request id is not in the cache and whose
  relay call returns a confirmation text, is answered with status 200 and that text
  (on a line), the relay is called once and the request id is recorded at \<open>tSet\<close>;
  a later post with the same request id, looked up less than 300 seconds after
  \<open>tSet\<close>, is answered as a skipped duplicate and leaves the state, and so the
  trace of relay calls, as it was.
\<close>

theorem C1_forwarded_then_skipped:
  assumes "ttl (processedEvents s) = Second * cacheTTL"
    and "Method r = ''POST''" and "Body r = Inr data" and "ParseEvent data = Inr event"
    and "\<not> snd (Cache_Get (processedEvents s) tGet (RequestID event))"
    and "PostEvent (slackToken params) event = Inr reply"
    and "Method r' = ''POST''" and "Body r' = Inr data'" and "ParseEvent data' = Inr event'"
    and "RequestID event' = RequestID event"
    and "tGet' < tSet + 300 * Second"
    and "s' = s\<lparr>posted := posted s @ [(slackToken params, event)],
                 processedEvents :=
                   Cache_Set (processedEvents s) tSet (RequestID event) (RequestID event)\<rparr>"
  shows "Slack ParseEvent PostEvent tGet tSet r params newResponse s =
           (\<lparr>code = Some 200, header = [], written = reply @ [CHR 0x0A]\<rparr>, s')
       \<and> Slack ParseEvent PostEvent' tGet' tSet' r' params' newResponse s' =
           (\<lparr>code = Some 200,
             header = [(''X-Processing-Status'', ''skipped;already-processed'')],
             written = []\<rparr>, s')"
proof -
  have "snd (Cache_Get (processedEvents s') tGet' (RequestID event'))"
    using assms by (simp add: Cache_Get_Set_same cacheTTL_def)
  then show ?thesis
    using assms by (simp add: Slack_def writer_defs)
qed

theorem C1_forwarded_then_skipped_witness:
  "\<not> snd (Cache_Get (processedEvents init) 5 ''abc123'')
   \<and> Slack parse_ok post_ok 5 6 post_abc123 route_T newResponse init =
        (\<lparr>code = Some 200, header = [], written = ''ok'' @ [CHR 0x0A]\<rparr>, seen)
   \<and> Slack parse_ok post_fail (299 * Second) (299 * Second) post_abc123 route_T
        newResponse seen =
        (\<lparr>code = Some 200,
          header = [(''X-Processing-Status'', ''skipped;already-processed'')],
          written = []\<rparr>, seen)"
  using C1_forwarded_then_skipped [where s = init and r = post_abc123 and data = "''abc123''"
      and ParseEvent = parse_ok and event = abc123 and tGet = 5 and tSet = 6
      and PostEvent = post_ok and params = route_T and reply = "''ok''"
      and r' = post_abc123 and data' = "''abc123''" and event' = abc123
      and tGet' = "299 * Second" and tSet' = "299 * Second" and s' = seen
      and PostEvent' = post_fail and params' = route_T]
  by (simp add: example_defs)

text \<open>
  C2: when the relay call fails, the answer is status 500 with the error text (on a
  line), the cache is as it was, and a later post with the same request id calls the
  relay again.
\<close>

theorem C2_relay_error_leaves_cache:
  assumes "Method r = ''POST''" and "Body r = Inr data" and "ParseEvent data = Inr event"
    and "\<not> snd (Cache_Get (processedEvents s) tGet (RequestID event))"
    and "PostEvent (slackToken params) event = Inl err"
    and "Method r' = ''POST''" and "Body r' = Inr data'" and "ParseEvent data' = Inr event'"
    and "RequestID event' = RequestID event"
    and "tGet \<le> tGet'"
    and "s' = s\<lparr>posted := posted s @ [(slackToken params, event)]\<rparr>"
  shows "Slack ParseEvent PostEvent tGet tSet r params newResponse s =
           (\<lparr>code = Some 500,
             header = [(''Content-Type'', ''text/plain; charset=utf-8''),
                       (''X-Content-Type-Options'', ''nosniff'')],
             written = err @ [CHR 0x0A]\<rparr>, s')
       \<and> processedEvents s' = processedEvents s
       \<and> posted (snd (Slack ParseEvent PostEvent' tGet' tSet' r' params' newResponse s')) =
           posted s' @ [(slackToken params', event')]"
proof -
  have "\<not> snd (Cache_Get (processedEvents s') tGet' (RequestID event'))"
    using assms Cache_Get_absent_later [of "processedEvents s" tGet "RequestID event" tGet']
    by simp
  then show ?thesis
    using assms by (simp add: Slack_def writer_defs split: sum.splits)
qed

theorem C2_relay_error_leaves_cache_witness:
  "\<not> snd (Cache_Get (processedEvents init) 5 ''abc123'')
   \<and> Slack parse_ok post_fail 5 6 post_abc123 route_T newResponse init =
        (\<lparr>code = Some 500,
          header = [(''Content-Type'', ''text/plain; charset=utf-8''),
                    (''X-Content-Type-Options'', ''nosniff'')],
          written = ''invalid_token'' @ [CHR 0x0A]\<rparr>, tried)
   \<and> processedEvents tried = processedEvents init
   \<and> posted (snd (Slack parse_ok post_ok 7 8 post_abc123 route_T newResponse tried)) =
        [(''T1/T2/T3'', abc123), (''T1/T2/T3'', abc123)]"
  using C2_relay_error_leaves_cache [where s = init and r = post_abc123
      and data = "''abc123''" and ParseEvent = parse_ok and event = abc123 and tGet = 5
      and tSet = 6 and PostEvent = post_fail and params = route_T
      and err = "''invalid_token''" and r' = post_abc123 and data' = "''abc123''"
      and event' = abc123 and tGet' = 7 and tSet' = 8 and s' = tried
      and PostEvent' = post_ok and params' = route_T]
  by (simp add: example_defs)

text \<open>
  C3: when the parser rejects the body, the answer is status 400 with the error text
  (on a line) and the state, cache and trace of relay calls, is as it was; a second
  malformed post right after is answered the same way, not as a duplicate.
\<close>

theorem C3_parse_error_no_effect:
  assumes "Method r = ''POST''" and "Body r = Inr data" and "ParseEvent data = Inl err"
    and "Method r' = ''POST''" and "Body r' = Inr data'" and "ParseEvent data' = Inl err'"
  shows "Slack ParseEvent PostEvent tGet tSet r params newResponse s =
           (\<lparr>code = Some 400,
             header = [(''Content-Type'', ''text/plain; charset=utf-8''),
                       (''X-Content-Type-Options'', ''nosniff'')],
             written = err @ [CHR 0x0A]\<rparr>, s)
       \<and> Slack ParseEvent PostEvent' tGet' tSet' r' params' newResponse
           (snd (Slack ParseEvent PostEvent tGet tSet r params newResponse s)) =
           (\<lparr>code = Some 400,
             header = [(''Content-Type'', ''text/plain; charset=utf-8''),
                       (''X-Content-Type-Options'', ''nosniff'')],
             written = err' @ [CHR 0x0A]\<rparr>, s)"
  using assms by (simp add: Slack_def writer_defs)

theorem C3_parse_error_no_effect_witness:
  "Slack parse_fail post_ok 5 6 post_abc123 route_T newResponse init =
     (\<lparr>code = Some 400,
       header = [(''Content-Type'', ''text/plain; charset=utf-8''),
                 (''X-Content-Type-Options'', ''nosniff'')],
       written = ''unexpected end of JSON input'' @ [CHR 0x0A]\<rparr>, init)
   \<and> Slack parse_fail post_ok 7 8 post_abc123 route_T newResponse
       (snd (Slack parse_fail post_ok 5 6 post_abc123 route_T newResponse init)) =
     (\<lparr>code = Some 400,
       header = [(''Content-Type'', ''text/plain; charset=utf-8''),
                 (''X-Content-Type-Options'', ''nosniff'')],
       written = ''unexpected end of JSON input'' @ [CHR 0x0A]\<rparr>, init)"
  using C3_parse_error_no_effect [where r = post_abc123 and data = "''abc123''"
      and ParseEvent = parse_fail and err = "''unexpected end of JSON input''"
      and r' = post_abc123 and data' = "''abc123''"
      and err' = "''unexpected end of JSON input''" and PostEvent = post_ok
      and PostEvent' = post_ok and tGet = 5 and tSet = 6 and tGet' = 7 and tSet' = 8
      and params = route_T and params' = route_T and s = init]
  by (simp add: example_defs cong: conj_cong)

text \<open>
  C5: a post whose parsed request id is present in the cache is answered with status
  200, the header X-Processing-Status set to skipped;already-processed and an empty body;
  the state is as it was, so the relay was not called.
\<close>

theorem C5_duplicate_skipped:
  assumes "Method r = ''POST''" and "Body r = Inr data" and "ParseEvent data = Inr event"
    and "snd (Cache_Get (processedEvents s) tGet (RequestID event))"
  shows "Slack ParseEvent PostEvent tGet tSet r params newResponse s =
           (\<lparr>code = Some 200,
             header = [(''X-Processing-Status'', ''skipped;already-processed'')],
             written = []\<rparr>, s)"
  using assms
  by (simp add: Slack_def writer_defs)

theorem C5_duplicate_skipped_witness:
  "snd (Cache_Get (processedEvents seen) 7 ''abc123'')
   \<and> Slack parse_ok post_ok 7 8 post_abc123 route_T newResponse seen =
       (\<lparr>code = Some 200,
         header = [(''X-Processing-Status'', ''skipped;already-processed'')],
         written = []\<rparr>, seen)"
  using C5_duplicate_skipped [where r = post_abc123 and data = "''abc123''"
      and ParseEvent = parse_ok and event = abc123 and s = seen and tGet = 7
      and PostEvent = post_ok and tSet = 8 and params = route_T]
  by (simp add: example_defs)

text \<open>
  C4: an entry set at \<open>tIns\<close> in the cache of the process is present at every later
  reading of the clock less than 300 seconds after \<open>tIns\<close> and absent from 300
  seconds on; so after a post was relayed and recorded at \<open>tSet\<close>, a post with the
  same request id looked up 300 seconds after \<open>tSet\<close> or later is treated as new: the
  relay is called again.
\<close>

theorem C4_entry_visible_for_ttl:
  assumes "ttl (processedEvents s) = Second * cacheTTL"
    and "tIns \<le> now"
    and "Method r = ''POST''" and "Body r = Inr data" and "ParseEvent data = Inr event"
    and "\<not> snd (Cache_Get (processedEvents s) tGet (RequestID event))"
    and "PostEvent (slackToken params) event = Inr reply"
    and "s' = snd (Slack ParseEvent PostEvent tGet tSet r params newResponse s)"
    and "Method r' = ''POST''" and "Body r' = Inr data'" and "ParseEvent data' = Inr event'"
    and "RequestID event' = RequestID event"
    and "tSet + 300 * Second \<le> tGet'"
  shows "(snd (Cache_Get (Cache_Set (processedEvents s) tIns key v) now key) \<longleftrightarrow>
            now < tIns + 300 * Second)
       \<and> \<not> snd (Cache_Get (processedEvents s') tGet' (RequestID event))
       \<and> posted (snd (Slack ParseEvent PostEvent' tGet' tSet' r' params' newResponse s')) =
           posted s' @ [(slackToken params', event')]"
proof -
  have s': "s' = s\<lparr>posted := posted s @ [(slackToken params, event)],
                 processedEvents :=
                   Cache_Set (processedEvents s) tSet (RequestID event) (RequestID event)\<rparr>"
    using assms(3-8) by (simp add: Slack_def)
  have win: "snd (Cache_Get (Cache_Set (processedEvents s) t k d) t' k) \<longleftrightarrow>
      t' < t + 300 * Second" for t t' k d
    using assms(1) by (simp add: Cache_Get_Set_same cacheTTL_def mult.commute)
  have gone: "\<not> snd (Cache_Get (processedEvents s') tGet' (RequestID event'))"
    using win [of tSet "RequestID event" "RequestID event" tGet'] assms(12,13) s' by simp
  have "posted (snd (Slack ParseEvent PostEvent' tGet' tSet' r' params' newResponse s')) =
           posted s' @ [(slackToken params', event')]"
    using gone assms(9-11) by (simp add: Slack_def split: sum.splits)
  with win [of tIns key v now] gone assms(12) show ?thesis by simp
qed

theorem C4_entry_visible_for_ttl_witness:
  "snd (Cache_Get (Cache_Set (processedEvents init) 6 ''k'' ''v'') (5 + 300 * Second) ''k'')
   \<and> \<not> snd (Cache_Get (Cache_Set (processedEvents init) 6 ''k'' ''v'') (6 + 300 * Second) ''k'')
   \<and> seen = snd (Slack parse_ok post_ok 5 6 post_abc123 route_T newResponse init)
   \<and> \<not> snd (Cache_Get (processedEvents seen) (6 + 300 * Second) ''abc123'')
   \<and> posted (snd (Slack parse_ok post_ok (6 + 300 * Second) (7 + 300 * Second) post_abc123
        route_T newResponse seen)) =
        [(''T1/T2/T3'', abc123), (''T1/T2/T3'', abc123)]"
  using C4_entry_visible_for_ttl [where s = init and tIns = 6 and now = "5 + 300 * Second"
      and key = "''k''" and v = "''v''" and r = post_abc123 and data = "''abc123''"
      and ParseEvent = parse_ok and event = abc123 and tGet = 5 and tSet = 6
      and PostEvent = post_ok and params = route_T and reply = "''ok''" and s' = seen
      and r' = post_abc123 and data' = "''abc123''" and event' = abc123
      and tGet' = "6 + 300 * Second" and tSet' = "7 + 300 * Second"
      and PostEvent' = post_ok and params' = route_T]
    C4_entry_visible_for_ttl [where s = init and tIns = 6 and now = "6 + 300 * Second"
      and key = "''k''" and v = "''v''" and r = post_abc123 and data = "''abc123''"
      and ParseEvent = parse_ok and event = abc123 and tGet = 5 and tSet = 6
      and PostEvent = post_ok and params = route_T and reply = "''ok''" and s' = seen
      and r' = post_abc123 and data' = "''abc123''" and event' = abc123
      and tGet' = "6 + 300 * Second" and tSet' = "7 + 300 * Second"
      and PostEvent' = post_ok and params' = route_T]
  by (simp add: example_defs Slack_def writer_defs)

subsection \<open>Relay dispatch and routing\<close>

text \<open>
  C7: for every three path segments \<open>a\<close>, \<open>b\<close> and \<open>c\<close>, whatever they contain, the
  token of the service is \<open>a/b/c\<close>; a post that reaches the relay calls the client
  once, with that token and the event, and the answer carries what the client returned:
  its text (on a line) with status 200, or its error text (on a line) with status 500.
\<close>

theorem C7_token_and_delegation:
  assumes "Method r = ''POST''" and "Body r = Inr data" and "ParseEvent data = Inr event"
    and "\<not> snd (Cache_Get (processedEvents s) tGet (RequestID event))"
    and "params = [(''slackAlpha'', a), (''slackBeta'', b), (''slackGamma'', c)]"
    and "out = Slack ParseEvent PostEvent tGet tSet r params newResponse s"
  shows "slackToken params = a @ ''/'' @ b @ ''/'' @ c
       \<and> posted (snd out) = posted s @ [(a @ ''/'' @ b @ ''/'' @ c, event)]
       \<and> (\<forall>reply. PostEvent (a @ ''/'' @ b @ ''/'' @ c) event = Inr reply \<longrightarrow>
            fst out = \<lparr>code = Some 200, header = [], written = reply @ [CHR 0x0A]\<rparr>)
       \<and> (\<forall>err. PostEvent (a @ ''/'' @ b @ ''/'' @ c) event = Inl err \<longrightarrow>
            fst out =
              \<lparr>code = Some 500,
               header = [(''Content-Type'', ''text/plain; charset=utf-8''),
                         (''X-Content-Type-Options'', ''nosniff'')],
               written = err @ [CHR 0x0A]\<rparr>)"
proof -
  have tok: "slackToken params = a @ ''/'' @ b @ ''/'' @ c"
    using assms(5) by (simp add: slackToken_def ByName_def)
  show ?thesis
    using assms(1-4,6) tok by (simp add: Slack_def writer_defs split: sum.splits)
qed

theorem C7_token_and_delegation_witness:
  "slackToken route_T = ''T1/T2/T3''
   \<and> slackToken [(''slackAlpha'', []), (''slackBeta'', ''T2''), (''slackGamma'', [])] = ''/T2/''
   \<and> posted (snd (Slack parse_ok post_ok 5 6 post_abc123 route_T newResponse init)) =
        [(''T1/T2/T3'', abc123)]
   \<and> fst (Slack parse_ok post_ok 5 6 post_abc123 route_T newResponse init) =
        \<lparr>code = Some 200, header = [], written = ''ok'' @ [CHR 0x0A]\<rparr>
   \<and> fst (Slack parse_ok post_fail 5 6 post_abc123 route_T newResponse init) =
        \<lparr>code = Some 500,
         header = [(''Content-Type'', ''text/plain; charset=utf-8''),
                   (''X-Content-Type-Options'', ''nosniff'')],
         written = ''invalid_token'' @ [CHR 0x0A]\<rparr>"
  using C7_token_and_delegation [where r = post_abc123 and data = "''abc123''"
      and ParseEvent = parse_ok and event = abc123 and s = init and tGet = 5 and tSet = 6
      and params = route_T and a = "''T1''" and b = "''T2''" and c = "''T3''"
      and PostEvent = post_ok
      and out = "Slack parse_ok post_ok 5 6 post_abc123 route_T newResponse init"]
    C7_token_and_delegation [where r = post_abc123 and data = "''abc123''"
      and ParseEvent = parse_ok and event = abc123 and s = init and tGet = 5 and tSet = 6
      and params = route_T and a = "''T1''" and b = "''T2''" and c = "''T3''"
      and PostEvent = post_fail
      and out = "Slack parse_ok post_fail 5 6 post_abc123 route_T newResponse init"]
    C7_token_and_delegation [where r = post_abc123 and data = "''abc123''"
      and ParseEvent = parse_ok and event = abc123 and s = init and tGet = 5 and tSet = 6
      and params = "[(''slackAlpha'', []), (''slackBeta'', ''T2''), (''slackGamma'', [])]"
      and a = "[]" and b = "''T2''" and c = "[]" and PostEvent = post_ok and out = "Slack
        parse_ok post_ok 5 6 post_abc123
        [(''slackAlpha'', []), (''slackBeta'', ''T2''), (''slackGamma'', [])] newResponse init"]
  by (simp add: example_defs)













text \<open>
  C10: the duplicate check reads the request id only. Once a post was relayed on one
  route and recorded at \<open>tSet\<close>, a post with the same request id looked up less than
  300 seconds after \<open>tSet\<close> is answered as a skipped duplicate on every route
  \<open>params'\<close>, with the state as it was, and the outcome is the same for any two routes
  and any two clients.
\<close>

theorem C10_dedup_ignores_routing:
  assumes "ttl (processedEvents s) = Second * cacheTTL"
    and "Method r = ''POST''" and "Body r = Inr data" and "ParseEvent data = Inr event"
    and "\<not> snd (Cache_Get (processedEvents s) tGet (RequestID event))"
    and "PostEvent (slackToken params) event = Inr reply"
    and "s' = snd (Slack ParseEvent PostEvent tGet tSet r params newResponse s)"
    and "Method r' = ''POST''" and "Body r' = Inr data'" and "ParseEvent data' = Inr event'"
    and "RequestID event' = RequestID event"
    and "tGet' < tSet + 300 * Second"
  shows "Slack ParseEvent PostEvent' tGet' tSet' r' params' newResponse s' =
           (\<lparr>code = Some 200,
             header = [(''X-Processing-Status'', ''skipped;already-processed'')],
             written = []\<rparr>, s')
       \<and> Slack ParseEvent PostEvent' tGet' tSet' r' params' newResponse s' =
         Slack ParseEvent PostEvent'' tGet' tSet'' r' params'' newResponse s'"
proof -
  have s': "processedEvents s' =
      Cache_Set (processedEvents s) tSet (RequestID event) (RequestID event)"
    using assms(2-7) by (simp add: Slack_def)
  have "snd (Cache_Get (processedEvents s') tGet' (RequestID event'))"
    using assms(1,11,12) s' by (simp add: Cache_Get_Set_same cacheTTL_def mult.commute)
  then show ?thesis
    using assms(8-10) by (simp add: Slack_def writer_defs)
qed

theorem C10_dedup_ignores_routing_witness:
  "seen = snd (Slack parse_ok post_ok 5 6 post_abc123 route_T newResponse init)
   \<and> slackToken route_U \<noteq> slackToken route_T
   \<and> Slack parse_ok post_ok 7 8 post_abc123 route_U newResponse seen =
        (\<lparr>code = Some 200,
          header = [(''X-Processing-Status'', ''skipped;already-processed'')],
          written = []\<rparr>, seen)
   \<and> Slack parse_ok post_ok 7 8 post_abc123 route_U newResponse seen =
       Slack parse_ok post_fail 7 9 post_abc123 route_T newResponse seen"
  using C10_dedup_ignores_routing [where s = init and r = post_abc123
      and data = "''abc123''" and ParseEvent = parse_ok and event = abc123 and tGet = 5
      and tSet = 6 and PostEvent = post_ok and params = route_T and reply = "''ok''"
      and s' = seen and r' = post_abc123 and data' = "''abc123''" and event' = abc123
      and tGet' = 7 and tSet' = 8 and PostEvent' = post_ok and params' = route_U
      and PostEvent'' = post_fail and tSet'' = 9 and params'' = route_T]
  by (simp add: example_defs Slack_def writer_defs)

subsection \<open>The liveness endpoint\<close>

text \<open>The seconds of a time are its whole seconds, and do not decrease with the clock.\<close>

lemma Unix_mono: "t \<le> t' \<Longrightarrow> Unix t \<le> Unix t'"
  by (simp add: Unix_def Second_def zdiv_mono1)

lemma Unix_whole_seconds: "Unix t * Second \<le> t \<and> t < (Unix t + 1) * Second"
proof -
  have "t div 1000000000 * 1000000000 + t mod 1000000000 = t" by simp
  moreover have "0 \<le> t mod 1000000000" "t mod 1000000000 < 1000000000" by simp_all
  moreover have "(t div 1000000000 + 1) * 1000000000 = t div 1000000000 * 1000000000 + 1000000000"
    by (simp add: algebra_simps)
  ultimately show ?thesis unfolding Unix_def Second_def by linarith
qed

text \<open>The decimal rendering names its number: different numbers print differently.\<close>

lemma digit_inj:
  assumes "a < 10" and "b < 10" and "''0123456789'' ! a = ''0123456789'' ! b"
  shows "a = (b::nat)"
proof -
  have "distinct ''0123456789''" by simp
  moreover have "a < length ''0123456789''" "b < length ''0123456789''" using assms by simp_all
  ultimately show ?thesis using assms(3) nth_eq_iff_index_eq by blast
qed

lemma digit_in: "d < 10 \<Longrightarrow> ''0123456789'' ! d \<in> set ''0123456789''"
  by (rule nth_mem) simp

lemma digits_nonempty: "digits n \<noteq> []"
  by (subst digits.simps) simp

lemma digits_set: "set (digits n) \<subseteq> set ''0123456789''"
proof (induction n rule: digits.induct)
  case (1 n)
  show ?case
  proof (cases "n < 10")
    case True
    then show ?thesis using digit_in [of n] by (subst digits.simps) simp
  next
    case False
    have "n mod 10 < 10" by simp
    then show ?thesis using 1 False digit_in [of "n mod 10"] by (subst digits.simps) simp
  qed
qed

lemma digits_inj: "digits m = digits n \<Longrightarrow> m = n"
proof (induction m arbitrary: n rule: digits.induct)
  case (1 m)
  show ?case
  proof (cases "m < 10")
    case True
    then have m: "digits m = [''0123456789'' ! m]" by (subst digits.simps) simp
    show ?thesis
    proof (cases "n < 10")
      case n: True
      then have "digits n = [''0123456789'' ! n]" by (subst digits.simps) simp
      with m "1.prems" True n show ?thesis using digit_inj by simp
    next
      case n: False
      then have "digits n = digits (n div 10) @ [''0123456789'' ! (n mod 10)]"
        by (subst digits.simps) simp
      with m "1.prems" digits_nonempty [of "n div 10"] show ?thesis by simp
    qed
  next
    case False
    then have m: "digits m = digits (m div 10) @ [''0123456789'' ! (m mod 10)]"
      by (subst digits.simps) simp
    show ?thesis
    proof (cases "n < 10")
      case n: True
      then have "digits n = [''0123456789'' ! n]" by (subst digits.simps) simp
      with m "1.prems" digits_nonempty [of "m div 10"] show ?thesis by simp
    next
      case n: False
      then have "digits n = digits (n div 10) @ [''0123456789'' ! (n mod 10)]"
        by (subst digits.simps) simp
      with m "1.prems" have eq: "digits (m div 10) = digits (n div 10)"
        and d: "''0123456789'' ! (m mod 10) = ''0123456789'' ! (n mod 10)" by simp_all
      from "1.IH" [OF False eq] have "m div 10 = n div 10" .
      moreover have "m mod 10 = n mod 10" using digit_inj [OF _ _ d] by simp
      ultimately show ?thesis by (metis div_mult_mod_eq)
    qed
  qed
qed

lemma Sprint_int_inj: "Sprint_int i = Sprint_int j \<Longrightarrow> i = j"
proof -
  assume eq: "Sprint_int i = Sprint_int j"
  have neg: "''-'' @ digits a \<noteq> digits b" for a b
  proof
    assume "''-'' @ digits a = digits b"
    then have "CHR ''-'' \<in> set (digits b)" by (metis append_Cons list.set_intros(1))
    then show False using digits_set [of b] by auto
  qed
  show ?thesis
  proof (cases "i < 0")
    case True
    show ?thesis
    proof (cases "j < 0")
      case j: True
      with True eq have "digits (nat (- i)) = digits (nat (- j))" by (simp add: Sprint_int_def)
      then have "nat (- i) = nat (- j)" by (rule digits_inj)
      with True j show ?thesis by simp
    next
      case j: False
      with True eq neg [of "nat (- i)" "nat j"] show ?thesis by (simp add: Sprint_int_def)
    qed
  next
    case False
    show ?thesis
    proof (cases "j < 0")
      case j: True
      with False eq neg [of "nat (- j)" "nat i"] show ?thesis by (simp add: Sprint_int_def)
    next
      case j: False
      with False eq have "digits (nat i) = digits (nat j)" by (simp add: Sprint_int_def)
      then have "nat i = nat j" by (rule digits_inj)
      with False j show ?thesis by simp
    qed
  qed
qed

text \<open>
  C9: the liveness handler answers with status 200, the JSON content type and the body
  \<^verbatim>\<open>{"ping":"<seconds>","what":"dnsimple-strillone"}\<close> on a line, where the seconds are
  the whole seconds of the clock reading since the epoch, in decimal; a later reading
  of the clock never gives a smaller ping, and the body determines the ping.
\<close>

theorem C9_root_ping:
  "Root now newResponse =
     \<lparr>code = Some 200, header = [(''Content-Type'', ''application/json'')],
      written = ''{'' @ [CHR 0x22] @ ''ping'' @ [CHR 0x22] @ '':'' @ [CHR 0x22]
        @ Sprint_int (Unix now)
        @ [CHR 0x22] @ '','' @ [CHR 0x22] @ ''what'' @ [CHR 0x22] @ '':'' @ [CHR 0x22]
        @ ''dnsimple-strillone'' @ [CHR 0x22] @ ''}'' @ [CHR 0x0A]\<rparr>
   \<and> Unix now * Second \<le> now \<and> now < (Unix now + 1) * Second
   \<and> (now \<le> now' \<longrightarrow> Unix now \<le> Unix now')
   \<and> (written (Root now newResponse) = written (Root now' newResponse) \<longrightarrow>
        Unix now = Unix now')"
proof -
  have "written (Root now newResponse) = written (Root now' newResponse) \<longrightarrow>
      Unix now = Unix now'"
    by (auto simp: Root_def writer_defs dest: Sprint_int_inj)
  moreover have "Root now newResponse =
     \<lparr>code = Some 200, header = [(''Content-Type'', ''application/json'')],
      written = ''{'' @ [CHR 0x22] @ ''ping'' @ [CHR 0x22] @ '':'' @ [CHR 0x22]
        @ Sprint_int (Unix now)
        @ [CHR 0x22] @ '','' @ [CHR 0x22] @ ''what'' @ [CHR 0x22] @ '':'' @ [CHR 0x22]
        @ ''dnsimple-strillone'' @ [CHR 0x22] @ ''}'' @ [CHR 0x0A]\<rparr>"
    by (simp add: Root_def writer_defs What_def)
  ultimately show ?thesis
    using Unix_whole_seconds [of now] Unix_mono [of now now'] by blast
qed

theorem C9_root_ping_witness:
  "written (Root (1700000000 * Second + 5) newResponse) =
     ''{'' @ [CHR 0x22] @ ''ping'' @ [CHR 0x22] @ '':'' @ [CHR 0x22] @ ''1700000000''
       @ [CHR 0x22] @ '','' @ [CHR 0x22] @ ''what'' @ [CHR 0x22] @ '':'' @ [CHR 0x22]
       @ ''dnsimple-strillone'' @ [CHR 0x22] @ ''}'' @ [CHR 0x0A]
   \<and> code (Root (1700000000 * Second + 5) newResponse) = Some 200
   \<and> 1700000000 * Second + 5 \<le> 1700000002 * Second
   \<and> Unix (1700000000 * Second + 5) = 1700000000
   \<and> Unix (1700000002 * Second) = 1700000002"
  using C9_root_ping [of "1700000000 * Second + 5" "1700000002 * Second"]
  by (simp add: Unix_def Second_def Sprint_int_def digits.simps)

end
